theory Spec2Isabelle
  imports Complex_Main
begin

section \<open>Values of the Python program\<close>

text \<open>
  The viewer is one Python file with two functions worth modelling:
  \<^verbatim>\<open>load_ply_file\<close> (the Point-Cloud Loader) and
  \<^verbatim>\<open>create_gaussian_splatting_visualization\<close> (the Visualization Builder).

  Numbers: the coordinates and colour channels are numpy \<^verbatim>\<open>float64\<close> values. A finite
  double is the real number it denotes, so they are modelled by \<^typ>\<open>real\<close>. The product
  \<^verbatim>\<open>r*255\<close> of a colour channel, which decides the integer written into the colour string, is
  rounded as a \<^verbatim>\<open>float64\<close> product is. The arithmetic on the coordinates (minimum, maximum,
  midpoint, span) is exact. Infinities, NaN and a product beyond the largest double (which
  is an infinity in Python) are outside the model. A numpy array of shape \<open>(N, 3)\<close> is a list
  of triples.
\<close>

type_synonym vec3 = "real \<times> real \<times> real"

type_synonym bytes = "char list"

text \<open>The exceptions that can leave the two functions.\<close>

datatype error =
    OSError        \<comment> \<open>the temporary file cannot be created or written\<close>
  | DecodeError    \<comment> \<open>raised by the external decoder\<close>
  | ValueError     \<comment> \<open>numpy: reduction of a zero-size array\<close>

subsection \<open>Rounding to \<^verbatim>\<open>float64\<close>\<close>

text \<open>
  The binary exponent of a double of absolute value \<open>v\<close>: the least \<open>e\<close> from \<open>-1022\<close> on
  with \<open>v < 2^(e+1)\<close>, at most 1023. Numbers below \<open>2^-1022\<close> (the subnormal ones) share the
  exponent \<open>-1022\<close>. A number from \<open>2^1024\<close> on is beyond the doubles (Python has an
  infinity there); the search stops at 1023 for it.
\<close>

fun float64_exponent_from :: "nat \<Rightarrow> int \<Rightarrow> real \<Rightarrow> int" where
  "float64_exponent_from 0 e v = e"
| "float64_exponent_from (Suc n) e v =
     (if v < 2 powi (e + 1) then e else float64_exponent_from n (e + 1) v)"

definition float64_exponent :: "real \<Rightarrow> int" where
  "float64_exponent v = float64_exponent_from 2045 (- 1022) \<bar>v\<bar>"

text \<open>Rounding to the nearest integer, a tie to the even one.\<close>

definition round_half_even :: "real \<Rightarrow> int" where
  "round_half_even v =
     (let n = \<lfloor>v\<rfloor>; d = v - of_int n
      in if d < 1 / 2 then n else if 1 / 2 < d then n + 1 else if even n then n else n + 1)"

text \<open>
  The double nearest to a real number: the doubles with exponent \<open>e\<close> are the multiples of
  \<open>2^(e-52)\<close> (53 significant bits), and IEEE 754 rounds to the nearest of them, a tie to the
  one with the even significand.
\<close>

definition float64_round :: "real \<Rightarrow> real" where
  "float64_round v =
     (let ulp = 2 powi (float64_exponent v - 52)
      in of_int (round_half_even (v / ulp)) * ulp)"

text \<open>The product of two doubles as the machine computes it: the exact product, rounded.\<close>

definition float64_mul :: "real \<Rightarrow> real \<Rightarrow> real" where
  "float64_mul a b = float64_round (a * b)"

subsection \<open>\<^verbatim>\<open>int(x)\<close> on a float and the decimal text of an integer\<close>

text \<open>Python's \<^verbatim>\<open>int\<close> on a float drops the fractional part (towards zero).\<close>

definition py_int :: "real \<Rightarrow> int" where
  "py_int v = (if 0 \<le> v then \<lfloor>v\<rfloor> else \<lceil>v\<rceil>)"

definition digit_char :: "nat \<Rightarrow> char" where
  "digit_char d = ''0123456789'' ! d"

function str_nat :: "nat \<Rightarrow> string" where
  "str_nat n = (if n < 10 then [digit_char n] else str_nat (n div 10) @ [digit_char (n mod 10)])"
  by pat_completeness auto
termination
  by (relation "measure (\<lambda>n. n)") auto

declare str_nat.simps [simp del]

text \<open>What an f-string writes for an integer: the decimal digits, after a minus sign if negative.\<close>

definition str_int :: "int \<Rightarrow> string" where
  "str_int i = (if i < 0 then CHR ''-'' # str_nat (nat (- i)) else str_nat (nat i))"

text \<open>The expression \<^verbatim>\<open>int(r*255)\<close> for one channel: the product is a \<^verbatim>\<open>float64\<close> product.\<close>

definition color_channel :: "real \<Rightarrow> int" where
  "color_channel c = py_int (float64_mul c 255)"

text \<open>
  The element of \<^verbatim>\<open>color_hex\<close> for one colour:
  \<^verbatim>\<open>f'rgb({int(r*255)},{int(g*255)},{int(b*255)})'\<close>.
\<close>

definition rgb_string :: "vec3 \<Rightarrow> string" where
  "rgb_string c =
     (case c of (r, g, b) \<Rightarrow>
        ''rgb('' @ str_int (color_channel r) @ '','' @ str_int (color_channel g) @ '',''
          @ str_int (color_channel b) @ '')'')"

section \<open>The data model\<close>

text \<open>
  The decoded Open3D point cloud, as far as \<^verbatim>\<open>load_ply_file\<close> reads it: the three arrays
  and the answers of \<^verbatim>\<open>has_colors()\<close> and \<^verbatim>\<open>has_normals()\<close>. The library is not part of
  the repository, so the two answers are fields of the value and not computed here.
\<close>

record PointCloud =
  pcd_points :: "vec3 list"
  pcd_colors :: "vec3 list"
  pcd_normals :: "vec3 list"
  pcd_has_colors :: bool
  pcd_has_normals :: bool

text \<open>
  The dictionary \<^verbatim>\<open>{'points', 'colors', 'normals', 'pcd'}\<close> returned by the loader. The
  handle has type \<^typ>\<open>'h\<close>: the loader stores the decoded cloud there, the sample data of
  the shell stores \<^verbatim>\<open>None\<close>.
\<close>

record 'h PointCloudRecord =
  points :: "vec3 list"
  colors :: "vec3 list"
  normals :: "vec3 list option"
  pcd :: 'h

text \<open>The Plotly figure: one \<^verbatim>\<open>Scatter3d\<close> trace and the layout.\<close>

record Marker =
  marker_size :: real
  marker_color :: "string list"
  marker_opacity :: real
  marker_line_width :: int

record Scatter3d =
  trace_x :: "real list"
  trace_y :: "real list"
  trace_z :: "real list"
  trace_mode :: string
  trace_marker :: Marker
  trace_hoverinfo :: string

record Axis =
  visible :: bool
  showticklabels :: bool
  showgrid :: bool
  zeroline :: bool
  showbackground :: bool

record Camera =
  camera_up :: vec3
  camera_center :: vec3
  camera_eye :: vec3

record Scene =
  xaxis :: Axis
  yaxis :: Axis
  zaxis :: Axis
  aspectmode :: string
  camera :: Camera
  bgcolor :: string

record Layout =
  scene :: Scene
  margin :: "int \<times> int \<times> int \<times> int"   \<comment> \<open>\<^verbatim>\<open>l, r, b, t\<close>\<close>
  scene_dragmode :: string
  height :: int
  width :: int

record Figure =
  fig_data :: "Scatter3d list"
  fig_layout :: Layout

section \<open>The Visualization Builder\<close>

text \<open>
  \<^verbatim>\<open>a.min()\<close> and \<^verbatim>\<open>a.max()\<close> of a one-dimensional numpy array: a left-to-right reduction,
  and \<^verbatim>\<open>ValueError\<close> on a zero-size array.
\<close>

fun np_min :: "real list \<Rightarrow> error + real" where
  "np_min [] = Inl ValueError"
| "np_min (v # vs) = Inr (foldl min v vs)"

fun np_max :: "real list \<Rightarrow> error + real" where
  "np_max [] = Inl ValueError"
| "np_max (v # vs) = Inr (foldl max v vs)"

text \<open>One line \<^verbatim>\<open>x_range = [points[:, 0].min(), points[:, 0].max()]\<close> of the source.\<close>

definition axis_range :: "real list \<Rightarrow> error + real \<times> real" where
  "axis_range col =
     (case np_min col of
        Inl e \<Rightarrow> Inl e
      | Inr lo \<Rightarrow> (case np_max col of Inl e \<Rightarrow> Inl e | Inr hi \<Rightarrow> Inr (lo, hi)))"

text \<open>
  The local variables \<^verbatim>\<open>center\<close>, \<^verbatim>\<open>max_range\<close> and \<^verbatim>\<open>camera_dist\<close> of the builder
  (source lines 96 to 112), kept in a record so that statements can name them.
\<close>

record Framing =
  center :: vec3
  max_range :: real
  camera_dist :: real

definition camera_framing :: "vec3 list \<Rightarrow> error + Framing" where
  "camera_framing pts =
     (case axis_range (map fst pts) of
        Inl e \<Rightarrow> Inl e
      | Inr x_range \<Rightarrow>
     (case axis_range (map (fst \<circ> snd) pts) of
        Inl e \<Rightarrow> Inl e
      | Inr y_range \<Rightarrow>
     (case axis_range (map (snd \<circ> snd) pts) of
        Inl e \<Rightarrow> Inl e
      | Inr z_range \<Rightarrow>
          (let c = ((fst x_range + snd x_range) / 2,
                    (fst y_range + snd y_range) / 2,
                    (fst z_range + snd z_range) / 2);
               m = max (snd x_range - fst x_range)
                     (max (snd y_range - fst y_range) (snd z_range - fst z_range));
               d = m * 2.5
           in Inr \<lparr>center = c, max_range = m, camera_dist = d\<rparr>))))"

definition hidden_axis :: Axis where
  "hidden_axis =
     \<lparr>visible = False, showticklabels = False, showgrid = False, zeroline = False,
      showbackground = False\<rparr>"

text \<open>
  The builder. The trace is built first (source lines 70 to 93), then the bounding box, where
  an empty array raises, then the layout. The parameter \<open>splat_scale\<close> is taken and not read.
\<close>

definition create_gaussian_splatting_visualization ::
    "'h PointCloudRecord \<Rightarrow> real \<Rightarrow> real \<Rightarrow> error + Figure" where
  "create_gaussian_splatting_visualization data point_size splat_scale =
     (let pts = points data;
          cols = colors data;
          color_hex = map rgb_string cols;
          tr = \<lparr>trace_x = map fst pts,
                trace_y = map (fst \<circ> snd) pts,
                trace_z = map (snd \<circ> snd) pts,
                trace_mode = ''markers'',
                trace_marker =
                  \<lparr>marker_size = point_size, marker_color = color_hex, marker_opacity = 0.8,
                   marker_line_width = 0\<rparr>,
                trace_hoverinfo = ''none''\<rparr>
      in case camera_framing pts of
           Inl e \<Rightarrow> Inl e
         | Inr fr \<Rightarrow>
             Inr \<lparr>fig_data = [tr],
                  fig_layout =
                    \<lparr>scene =
                       \<lparr>xaxis = hidden_axis, yaxis = hidden_axis, zaxis = hidden_axis,
                        aspectmode = ''data'',
                        camera =
                          \<lparr>camera_up = (0, 0, 1),
                           camera_center = (0, 0, 0),
                           camera_eye = (camera_dist fr, camera_dist fr, camera_dist fr / 2)\<rparr>,
                        bgcolor = ''rgba(0,0,0,0)''\<rparr>,
                     margin = (0, 0, 0, 0),
                     scene_dragmode = ''orbit'',
                     height = 800,
                     width = 900\<rparr>\<rparr>)"

section \<open>The Point-Cloud Loader\<close>

text \<open>
  The file system is a map from path to content. What the loader calls outside the repository
  is a parameter: the name \<^verbatim>\<open>NamedTemporaryFile\<close> picks (or its failure), whether
  \<^verbatim>\<open>tmp_file.write\<close> raises, and \<^verbatim>\<open>o3d.io.read_point_cloud\<close>.
\<close>

type_synonym filesystem = "string \<rightharpoonup> bytes"

record os_env =
  tmp_name :: "filesystem \<Rightarrow> error + string"
  write_result :: "bytes \<Rightarrow> error option"
  read_point_cloud :: "filesystem \<Rightarrow> string \<Rightarrow> error + PointCloud"

text \<open>Source lines 43 to 63: from the decoded cloud to the returned dictionary.\<close>

definition extract_record :: "PointCloud \<Rightarrow> PointCloud PointCloudRecord" where
  "extract_record p =
     (let pts = pcd_points p;
          cols = (if pcd_has_colors p then pcd_colors p
                  else replicate (length pts) (1 * 0.5, 1 * 0.5, 1 * 0.5));
          nrm = (if pcd_has_normals p then Some (pcd_normals p) else None)
      in \<lparr>points = pts, colors = cols, normals = nrm, pcd = p\<rparr>)"

text \<open>
  The loader, with the file system passed through. The temporary file is created with
  \<^verbatim>\<open>delete=False\<close> and written inside the \<^verbatim>\<open>with\<close> block, which only closes it; the
  \<^verbatim>\<open>try ... finally: os.unlink(tmp_filename)\<close> starts after that block.
\<close>

definition load_ply_file ::
    "os_env \<Rightarrow> bytes \<Rightarrow> filesystem \<Rightarrow> (error + PointCloud PointCloudRecord) \<times> filesystem" where
  "load_ply_file env file_bytes fs =
     (case tmp_name env fs of
        Inl e \<Rightarrow> (Inl e, fs)
      | Inr tmp_filename \<Rightarrow>
          (let fs1 = fs(tmp_filename \<mapsto> [])
           in case write_result env file_bytes of
                Some e \<Rightarrow> (Inl e, fs1)
              | None \<Rightarrow>
                  (let fs2 = fs1(tmp_filename \<mapsto> file_bytes);
                       res = (case read_point_cloud env fs2 tmp_filename of
                                Inl e \<Rightarrow> Inl e
                              | Inr p \<Rightarrow> Inr (extract_record p))
                   in (res, fs2(tmp_filename := None)))))"

section \<open>The camera placement in the words of the specification\<close>

text \<open>
  The specification describes the bounding box by the least and the greatest coordinate on an
  axis. These two definitions follow its words; the theorems compare them with what
  \<^const>\<open>camera_framing\<close> computes.
\<close>

definition spec_midpoint :: "real set \<Rightarrow> real" where
  "spec_midpoint S = (Min S + Max S) / 2"

definition spec_span :: "real set \<Rightarrow> real" where
  "spec_span S = Max S - Min S"

section \<open>Concrete inputs\<close>

text \<open>The eight corners of the cube from \<open>(0,0,0)\<close> to \<open>(10,10,10)\<close>, with colours.\<close>

definition cube_points :: "vec3 list" where
  "cube_points =
     [(0, 0, 0), (10, 0, 0), (0, 10, 0), (10, 10, 0),
      (0, 0, 10), (10, 0, 10), (0, 10, 10), (10, 10, 10)]"

definition cube_data :: "unit PointCloudRecord" where
  "cube_data =
     \<lparr>points = cube_points,
      colors = map (\<lambda>(a, b, c). (a / 10, b / 10, c / 10)) cube_points,
      normals = None, pcd = ()\<rparr>"

text \<open>
  A record with one point and the colour \<^verbatim>\<open>(0.999, 1.0, 0.0)\<close>. The double written
  \<^verbatim>\<open>0.999\<close> is \<open>8998192055486251 / 2^53\<close>, and \<open>2^53 = 9007199254740992\<close>.
\<close>

definition one_point_data :: "unit PointCloudRecord" where
  "one_point_data =
     \<lparr>points = [(2, 3, 4)], colors = [(8998192055486251 / 9007199254740992, 1, 0)],
      normals = None, pcd = ()\<rparr>"

text \<open>A decoded cloud of one point at \<open>(2,3,4)\<close>, without colours and without normals.\<close>

definition single_cloud :: PointCloud where
  "single_cloud =
     \<lparr>pcd_points = [(2, 3, 4)], pcd_colors = [], pcd_normals = [],
      pcd_has_colors = False, pcd_has_normals = False\<rparr>"


text \<open>A decoded cloud of two points with colours and normals.\<close>

definition colored_cloud :: PointCloud where
  "colored_cloud =
     \<lparr>pcd_points = [(0, 0, 0), (1, 2, 3)], pcd_colors = [(1, 0, 0), (0, 0.25, 1)],
      pcd_normals = [(0, 0, 1), (0, 0, 1)],
      pcd_has_colors = True, pcd_has_normals = True\<rparr>"

text \<open>
  Three environments. All pick the name \<^verbatim>\<open>/tmp/tmp0.ply\<close>. In the first two the write
  succeeds and the decoder returns a fixed cloud when the file is there (and fails otherwise);
  in the third the write raises (a full disk).
\<close>

definition decoding_env :: "PointCloud \<Rightarrow> os_env" where
  "decoding_env p =
     \<lparr>tmp_name = (\<lambda>fs. Inr ''/tmp/tmp0.ply''),
      write_result = (\<lambda>b. None),
      read_point_cloud = (\<lambda>fs name. case fs name of None \<Rightarrow> Inl OSError | Some b \<Rightarrow> Inr p)\<rparr>"

definition rejecting_env :: os_env where
  "rejecting_env =
     \<lparr>tmp_name = (\<lambda>fs. Inr ''/tmp/tmp0.ply''),
      write_result = (\<lambda>b. None),
      read_point_cloud = (\<lambda>fs name. Inl DecodeError)\<rparr>"

definition full_disk_env :: os_env where
  "full_disk_env =
     \<lparr>tmp_name = (\<lambda>fs. Inr ''/tmp/tmp0.ply''),
      write_result = (\<lambda>b. Some OSError),
      read_point_cloud = (\<lambda>fs name. Inl DecodeError)\<rparr>"


text \<open>The cube again, now with normals and a decoded cloud as its handle.\<close>

definition cube_data_with_normals :: "PointCloud PointCloudRecord" where
  "cube_data_with_normals =
     \<lparr>points = cube_points,
      colors = map (\<lambda>(a, b, c). (a / 10, b / 10, c / 10)) cube_points,
      normals = Some (replicate 8 (0, 0, 1)), pcd = colored_cloud\<rparr>"

section \<open>Auxiliary facts\<close>

lemma foldl_min_Min: "foldl min (v::real) vs = Min (set (v # vs))"
proof -
  have "(\<lambda>a b. min b a) = (min :: real \<Rightarrow> real \<Rightarrow> real)"
    by (intro ext) (rule min.commute)
  then show ?thesis
    by (simp add: Min.set_eq_fold foldl_conv_fold del: set_simps)
qed

lemma foldl_max_Max: "foldl max (v::real) vs = Max (set (v # vs))"
proof -
  have "(\<lambda>a b. max b a) = (max :: real \<Rightarrow> real \<Rightarrow> real)"
    by (intro ext) (rule max.commute)
  then show ?thesis
    by (simp add: Max.set_eq_fold foldl_conv_fold del: set_simps)
qed

lemma np_min_nonempty: "vs \<noteq> [] \<Longrightarrow> np_min vs = Inr (Min (set vs))"
  by (cases vs) (simp_all add: foldl_min_Min del: set_simps)

lemma np_max_nonempty: "vs \<noteq> [] \<Longrightarrow> np_max vs = Inr (Max (set vs))"
  by (cases vs) (simp_all add: foldl_max_Max del: set_simps)

lemma axis_range_nonempty:
  "vs \<noteq> [] \<Longrightarrow> axis_range vs = Inr (Min (set vs), Max (set vs))"
  by (simp add: axis_range_def np_min_nonempty np_max_nonempty)

lemma axis_range_empty: "axis_range [] = Inl ValueError"
  by (simp add: axis_range_def)

lemma camera_framing_nonempty:
  assumes "pts \<noteq> []"
  shows "camera_framing pts =
     Inr \<lparr>center = (spec_midpoint (fst ` set pts), spec_midpoint ((fst \<circ> snd) ` set pts),
                   spec_midpoint ((snd \<circ> snd) ` set pts)),
          max_range = Max {spec_span (fst ` set pts), spec_span ((fst \<circ> snd) ` set pts),
                           spec_span ((snd \<circ> snd) ` set pts)},
          camera_dist = Max {spec_span (fst ` set pts), spec_span ((fst \<circ> snd) ` set pts),
                           spec_span ((snd \<circ> snd) ` set pts)} * 2.5\<rparr>"
  using assms
  by (simp add: camera_framing_def axis_range_nonempty spec_midpoint_def spec_span_def Let_def)

lemma py_int_nonneg: "0 \<le> v \<Longrightarrow> py_int v = \<lfloor>v\<rfloor>"
  by (simp add: py_int_def)


lemma create_nonempty:
  assumes "points data \<noteq> []"
  shows "\<exists>fr fig. camera_framing (points data) = Inr fr
           \<and> create_gaussian_splatting_visualization data ps ss = Inr fig
           \<and> fig_data fig =
               [\<lparr>trace_x = map fst (points data), trace_y = map (fst \<circ> snd) (points data),
                 trace_z = map (snd \<circ> snd) (points data), trace_mode = ''markers'',
                 trace_marker =
                   \<lparr>marker_size = ps, marker_color = map rgb_string (colors data),
                    marker_opacity = 0.8, marker_line_width = 0\<rparr>,
                 trace_hoverinfo = ''none''\<rparr>]
           \<and> camera (scene (fig_layout fig)) =
               \<lparr>camera_up = (0, 0, 1), camera_center = (0, 0, 0),
                camera_eye = (camera_dist fr, camera_dist fr, camera_dist fr / 2)\<rparr>"
  using camera_framing_nonempty [OF assms]
  by (simp add: create_gaussian_splatting_visualization_def Let_def)

lemma create_Inr_data:
  assumes "create_gaussian_splatting_visualization data ps ss = Inr fig"
  shows "fig_data fig =
               [\<lparr>trace_x = map fst (points data), trace_y = map (fst \<circ> snd) (points data),
                 trace_z = map (snd \<circ> snd) (points data), trace_mode = ''markers'',
                 trace_marker =
                   \<lparr>marker_size = ps, marker_color = map rgb_string (colors data),
                    marker_opacity = 0.8, marker_line_width = 0\<rparr>,
                 trace_hoverinfo = ''none''\<rparr>]"
  using assms
  by (auto simp: create_gaussian_splatting_visualization_def Let_def split: sum.splits)

lemma extract_record_simps:
  "points (extract_record p) = pcd_points p"
  "colors (extract_record p) =
     (if pcd_has_colors p then pcd_colors p else replicate (length (pcd_points p)) (0.5, 0.5, 0.5))"
  "normals (extract_record p) = (if pcd_has_normals p then Some (pcd_normals p) else None)"
  "pcd (extract_record p) = p"
  by (simp_all add: extract_record_def Let_def)

lemma load_decoded:
  assumes "tmp_name env fs = Inr name"
    and "write_result env file_bytes = None"
    and "read_point_cloud env (fs(name \<mapsto> file_bytes)) name = Inr p"
  shows "load_ply_file env file_bytes fs = (Inr (extract_record p), fs(name := None))"
  using assms by (simp add: load_ply_file_def Let_def)


lemma load_unlinks_after_write:
  assumes "tmp_name env fs = Inr name"
    and "write_result env file_bytes = None"
  shows "name \<notin> dom (snd (load_ply_file env file_bytes fs))"
  using assms by (simp add: load_ply_file_def Let_def)

lemma load_keeps_file_when_write_raises:
  assumes "tmp_name env fs = Inr name"
    and "write_result env file_bytes = Some e"
  shows "load_ply_file env file_bytes fs = (Inl e, fs(name \<mapsto> []))"
  using assms by (simp add: load_ply_file_def Let_def)

lemma decoding_env_simps:
  "tmp_name (decoding_env p) fs = Inr ''/tmp/tmp0.ply''"
  "write_result (decoding_env p) b = None"
  "read_point_cloud (decoding_env p) (fs(''/tmp/tmp0.ply'' \<mapsto> b)) ''/tmp/tmp0.ply'' = Inr p"
  by (simp_all add: decoding_env_def)

lemma tempfile_removed_when_decoder_raises:
  "load_ply_file rejecting_env ''ply'' Map.empty = (Inl DecodeError, Map.empty)"
  by (simp add: load_ply_file_def rejecting_env_def)

lemma two_powi_less_D:
  assumes "(2::real) powi a < 2 powi b"
  shows "a < b"
proof (rule ccontr)
  assume "\<not> a < b"
  then have "b \<le> a" by simp
  then have "(2::real) powi b \<le> 2 powi a"
    by (rule power_int_increasing) simp
  with assms show False by simp
qed

lemma exponent_from_upper:
  "v < 2 powi (k + 1) \<Longrightarrow> e \<le> k \<Longrightarrow> float64_exponent_from n e v \<le> k"
proof (induction n arbitrary: e)
  case 0
  then show ?case by simp
next
  case (Suc n)
  show ?case
  proof (cases "v < 2 powi (e + 1)")
    case True
    with Suc.prems show ?thesis by simp
  next
    case False
    then have "(2::real) powi (e + 1) \<le> v" by simp
    with Suc.prems(1) have "(2::real) powi (e + 1) < 2 powi (k + 1)" by linarith
    then have "e + 1 \<le> k" using two_powi_less_D by fastforce
    with Suc.IH [OF Suc.prems(1) this] False show ?thesis by simp
  qed
qed

lemma exponent_from_exact:
  "2 powi k \<le> v \<Longrightarrow> v < 2 powi (k + 1) \<Longrightarrow> e \<le> k \<Longrightarrow> nat (k - e) \<le> n \<Longrightarrow>
   float64_exponent_from n e v = k"
proof (induction n arbitrary: e)
  case 0
  then show ?case by simp
next
  case (Suc n)
  show ?case
  proof (cases "v < 2 powi (e + 1)")
    case True
    with Suc.prems(1) have "(2::real) powi k < 2 powi (e + 1)" by linarith
    then have "k \<le> e" using two_powi_less_D by fastforce
    with Suc.prems(3) True show ?thesis by simp
  next
    case False
    then have "(2::real) powi (e + 1) \<le> v" by simp
    with Suc.prems(2) have "(2::real) powi (e + 1) < 2 powi (k + 1)" by linarith
    then have le: "e + 1 \<le> k" using two_powi_less_D by fastforce
    with Suc.prems(4) have "nat (k - (e + 1)) \<le> n" by simp
    from Suc.IH [OF Suc.prems(1,2) le this] False show ?thesis by simp
  qed
qed

lemma float64_exponent_upper:
  "\<bar>v\<bar> < 2 powi (k + 1) \<Longrightarrow> - 1022 \<le> k \<Longrightarrow> float64_exponent v \<le> k"
  unfolding float64_exponent_def by (rule exponent_from_upper)

lemma float64_exponent_exact:
  "2 powi k \<le> \<bar>v\<bar> \<Longrightarrow> \<bar>v\<bar> < 2 powi (k + 1) \<Longrightarrow> - 1022 \<le> k \<Longrightarrow> k \<le> 1023 \<Longrightarrow>
   float64_exponent v = k"
  unfolding float64_exponent_def by (rule exponent_from_exact) simp_all

lemma exponent_from_first: "v < 2 powi (e + 1) \<Longrightarrow> float64_exponent_from n e v = e"
  by (cases n) simp_all

lemma float64_exponent_zero: "float64_exponent 0 = - 1022"
  unfolding float64_exponent_def by (rule exponent_from_first) simp

lemma round_half_even_lower: "of_int N \<le> v \<Longrightarrow> N \<le> round_half_even v"
proof -
  assume "of_int N \<le> v"
  then have "N \<le> \<lfloor>v\<rfloor>" by (simp add: le_floor_iff)
  then show ?thesis by (simp add: round_half_even_def Let_def)
qed

lemma round_half_even_upper: "v \<le> of_int M \<Longrightarrow> round_half_even v \<le> M"
proof (cases "v = of_int M")
  case True
  then show ?thesis by (simp add: round_half_even_def)
next
  case False
  assume "v \<le> of_int M"
  with False have "v < of_int M" by simp
  then have "\<lfloor>v\<rfloor> < M" by (simp add: floor_less_iff)
  then show ?thesis by (simp add: round_half_even_def Let_def)
qed

lemma ulp_inverse:
  assumes "e \<le> 52"
  shows "(2 powi (e - 52) :: real) = inverse (2 ^ nat (52 - e))"
proof -
  have "(2::real) powi (e - 52) = inverse (2 powi (52 - e))"
    using power_int_minus [of "2::real" "52 - e"] by simp
  moreover have "(2::real) powi (52 - e) = 2 ^ nat (52 - e)"
    using assms by (simp add: power_int_nonneg_exp)
  ultimately show ?thesis by simp
qed

lemma ulp_grid:
  assumes "e \<le> 52"
  shows "of_int N / (2 powi (e - 52) :: real) = of_int (N * 2 ^ nat (52 - e))"
  by (simp add: ulp_inverse [OF assms] divide_inverse)

lemma ulp_grid_back:
  assumes "e \<le> 52"
  shows "of_int (N * 2 ^ nat (52 - e)) * (2 powi (e - 52) :: real) = of_int N"
  by (simp add: ulp_inverse [OF assms])

lemma float64_round_lower:
  assumes "float64_exponent v \<le> 52" and "of_int N \<le> v"
  shows "of_int N \<le> float64_round v"
proof -
  let ?u = "2 powi (float64_exponent v - 52) :: real"
  have u: "0 < ?u" by simp
  have "of_int N / ?u \<le> v / ?u"
    using assms(2) u by (simp add: divide_right_mono)
  then have "of_int (N * 2 ^ nat (52 - float64_exponent v)) \<le> v / ?u"
    by (simp only: ulp_grid [OF assms(1)])
  then have "N * 2 ^ nat (52 - float64_exponent v) \<le> round_half_even (v / ?u)"
    by (rule round_half_even_lower)
  then have "(of_int (N * 2 ^ nat (52 - float64_exponent v)) :: real) \<le> of_int (round_half_even (v / ?u))"
    by (simp only: of_int_le_iff)
  then have "of_int (N * 2 ^ nat (52 - float64_exponent v)) * ?u \<le> of_int (round_half_even (v / ?u)) * ?u"
    using u by (simp only: mult_le_cancel_right_pos)
  moreover have "of_int (N * 2 ^ nat (52 - float64_exponent v)) * ?u = (of_int N :: real)"
    by (rule ulp_grid_back [OF assms(1)])
  ultimately have "of_int N \<le> of_int (round_half_even (v / ?u)) * ?u"
    by linarith
  then show ?thesis
    unfolding float64_round_def Let_def .
qed

lemma float64_round_upper:
  assumes "float64_exponent v \<le> 52" and "v \<le> of_int M"
  shows "float64_round v \<le> of_int M"
proof -
  let ?u = "2 powi (float64_exponent v - 52) :: real"
  have u: "0 < ?u" by simp
  have "v / ?u \<le> of_int M / ?u"
    using assms(2) u by (simp add: divide_right_mono)
  then have "v / ?u \<le> of_int (M * 2 ^ nat (52 - float64_exponent v))"
    by (simp only: ulp_grid [OF assms(1)])
  then have "round_half_even (v / ?u) \<le> M * 2 ^ nat (52 - float64_exponent v)"
    by (rule round_half_even_upper)
  then have "(of_int (round_half_even (v / ?u)) :: real) \<le> of_int (M * 2 ^ nat (52 - float64_exponent v))"
    by (simp only: of_int_le_iff)
  then have "of_int (round_half_even (v / ?u)) * ?u \<le> of_int (M * 2 ^ nat (52 - float64_exponent v)) * ?u"
    using u by (simp only: mult_le_cancel_right_pos)
  moreover have "of_int (M * 2 ^ nat (52 - float64_exponent v)) * ?u = (of_int M :: real)"
    by (rule ulp_grid_back [OF assms(1)])
  ultimately have "of_int (round_half_even (v / ?u)) * ?u \<le> of_int M"
    by linarith
  then show ?thesis
    unfolding float64_round_def Let_def .
qed

lemma float64_round_of_int:
  assumes "\<bar>of_int N :: real\<bar> < 2 powi 53"
  shows "float64_round (of_int N) = of_int N"
proof -
  have "float64_exponent (of_int N) \<le> 52"
    using float64_exponent_upper [of "of_int N" 52] assms by simp
  from float64_round_lower [OF this, of N] float64_round_upper [OF this, of N]
  show ?thesis by simp
qed

text \<open>
  A channel in \<open>[0,1]\<close>: the product is not negative, so \<^verbatim>\<open>int\<close> is the floor of the rounded
  product. It lies between 0 and 255, and it is the integer part of the exact product or
  that plus one, since rounding to a double never passes an integer of this size.
\<close>

lemma color_channel_unit:
  assumes "0 \<le> c" and "c \<le> 1"
  shows "color_channel c = \<lfloor>float64_mul c 255\<rfloor>"
    and "0 \<le> color_channel c" and "color_channel c \<le> 255"
    and "\<lfloor>c * 255\<rfloor> \<le> color_channel c" and "color_channel c \<le> \<lfloor>c * 255\<rfloor> + 1"
proof -
  have lo: "0 \<le> c * 255" and hi: "c * 255 \<le> 255"
    using assms by simp_all
  have "\<bar>c * 255\<bar> < 2 powi (7 + 1)"
    using lo hi by simp
  then have "float64_exponent (c * 255) \<le> 7"
    by (rule float64_exponent_upper) simp
  then have e: "float64_exponent (c * 255) \<le> 52" by simp
  have r0: "0 \<le> float64_round (c * 255)"
    using float64_round_lower [OF e, of 0] lo by simp
  have r255: "float64_round (c * 255) \<le> 255"
    using float64_round_upper [OF e, of 255] hi by simp
  have rl: "of_int \<lfloor>c * 255\<rfloor> \<le> float64_round (c * 255)"
    by (rule float64_round_lower [OF e]) simp
  have "c * 255 \<le> of_int (\<lfloor>c * 255\<rfloor> + 1)"
    by (simp add: less_imp_le)
  then have ru: "float64_round (c * 255) \<le> of_int (\<lfloor>c * 255\<rfloor> + 1)"
    by (rule float64_round_upper [OF e])
  show eq: "color_channel c = \<lfloor>float64_mul c 255\<rfloor>"
    using r0 by (simp add: color_channel_def float64_mul_def py_int_nonneg)
  show "0 \<le> color_channel c"
    using r0 by (simp add: eq float64_mul_def)
  show "color_channel c \<le> 255"
    using r255 by (simp add: eq float64_mul_def floor_le_iff)
  show "\<lfloor>c * 255\<rfloor> \<le> color_channel c"
    using rl by (simp add: eq float64_mul_def le_floor_iff)
  show "color_channel c \<le> \<lfloor>c * 255\<rfloor> + 1"
    using ru by (simp add: eq float64_mul_def floor_le_iff)
qed

lemma color_channel_0: "color_channel 0 = 0"
  using float64_round_of_int [of 0] by (simp add: color_channel_def float64_mul_def py_int_def)

lemma color_channel_1: "color_channel 1 = 255"
  using float64_round_of_int [of 255] by (simp add: color_channel_def float64_mul_def py_int_def)

text \<open>The double \<^verbatim>\<open>0.999\<close>: the rounded product is about 254.745, and 254 is written.\<close>

lemma color_channel_0999: "color_channel (8998192055486251 / 9007199254740992) = 254"
proof -
  let ?v = "8998192055486251 / 9007199254740992 * 255 :: real"
  have "float64_exponent ?v = 7"
    by (rule float64_exponent_exact) simp_all
  then have "float64_mul (8998192055486251 / 9007199254740992) 255 = 2240760716942377 / 8796093022208"
    by (simp add: float64_mul_def float64_round_def round_half_even_def Let_def)
  then have "color_channel (8998192055486251 / 9007199254740992) = py_int (2240760716942377 / 8796093022208)"
    by (simp only: color_channel_def)
  also have "\<dots> = 254"
    by (simp add: py_int_def)
  finally show ?thesis .
qed

text \<open>
  The doubles \<^verbatim>\<open>1/255.0\<close> and \<^verbatim>\<open>128/255.0\<close> are \<open>282578800148737 / 2^56\<close> and
  \<open>282578800148737 / 2^49\<close> (the denominators are written out below). Their exact products
  with 255 are just below 1 and 128, and round to 1 and 128: the colour string has 1 and 128 where the integer parts of the exact
  products are 0 and 127.
\<close>

lemma color_channel_255th: "color_channel (282578800148737 / 72057594037927936) = 1"
proof -
  let ?v = "282578800148737 / 72057594037927936 * 255 :: real"
  have "float64_exponent ?v = - 1"
    by (rule float64_exponent_exact) simp_all
  then have "float64_mul (282578800148737 / 72057594037927936) 255 = 1"
    by (simp add: float64_mul_def float64_round_def round_half_even_def Let_def)
  then show ?thesis
    by (simp add: color_channel_def py_int_def)
qed

lemma color_channel_128_255th: "color_channel (282578800148737 / 562949953421312) = 128"
proof -
  let ?v = "282578800148737 / 562949953421312 * 255 :: real"
  have "float64_exponent ?v = 6"
    by (rule float64_exponent_exact) simp_all
  then have "float64_mul (282578800148737 / 562949953421312) 255 = 128"
    by (simp add: float64_mul_def float64_round_def round_half_even_def Let_def)
  then show ?thesis
    by (simp add: color_channel_def py_int_def)
qed

lemma exact_products_below:
  "\<lfloor>282578800148737 / 72057594037927936 * 255 :: real\<rfloor> = 0"
  "\<lfloor>282578800148737 / 562949953421312 * 255 :: real\<rfloor> = 127"
  by simp_all

lemma py_int_towards_zero: "\<bar>py_int v\<bar> = \<lfloor>\<bar>v\<bar>\<rfloor>"
proof (cases "0 \<le> v")
  case True
  then show ?thesis by (simp add: py_int_def)
next
  case False
  then have "\<lceil>v\<rceil> \<le> 0" by (simp add: ceiling_le_iff)
  with False show ?thesis by (simp add: py_int_def ceiling_def)
qed

lemma str_int_examples:
  "str_int 254 = ''254''" "str_int 255 = ''255''" "str_int 0 = ''0''"
  "str_int 1 = ''1''" "str_int 128 = ''128''"
  by (simp_all add: str_int_def str_nat.simps digit_char_def)

lemma rgb_string_examples:
  "rgb_string (8998192055486251 / 9007199254740992, 1, 0) = ''rgb(254,255,0)''"
  "rgb_string (282578800148737 / 72057594037927936, 282578800148737 / 562949953421312, 1) = ''rgb(1,128,255)''"
  by (simp_all add: rgb_string_def color_channel_0 color_channel_1 color_channel_0999
      color_channel_255th color_channel_128_255th str_int_examples)

lemma cube_colors:
  "map rgb_string (colors cube_data) =
     [''rgb(0,0,0)'', ''rgb(255,0,0)'', ''rgb(0,255,0)'', ''rgb(255,255,0)'',
      ''rgb(0,0,255)'', ''rgb(255,0,255)'', ''rgb(0,255,255)'', ''rgb(255,255,255)'']"
  by (simp add: cube_data_def cube_points_def rgb_string_def color_channel_0 color_channel_1
      str_int_examples)

lemma camera_framing_single:
  "camera_framing [p] = Inr \<lparr>center = p, max_range = 0, camera_dist = 0\<rparr>"
  by (cases p) (simp add: camera_framing_def axis_range_def)

lemma cube_sets:
  "fst ` set cube_points = {0, 10}"
  "(fst \<circ> snd) ` set cube_points = {0, 10}"
  "(snd \<circ> snd) ` set cube_points = {0, 10}"
  by (auto simp: cube_points_def)

text \<open>The digits written for a natural number are its decimal digits: reading them back gives the number.\<close>

lemma digit_char_value: "d < 10 \<Longrightarrow> (of_char (digit_char d) :: nat) = 48 + d"
proof -
  assume "d < 10"
  then have "d \<in> {0, 1, 2, 3, 4, 5, 6, 7, 8, 9}" by auto
  then show ?thesis
    by (auto simp: digit_char_def)
qed

lemma str_nat_decimal:
  "foldl (\<lambda>a c. 10 * a + (of_char c - 48)) 0 (str_nat n) = n"
proof (induction n rule: str_nat.induct)
  case (1 n)
  show ?case
  proof (cases "n < 10")
    case True
    then show ?thesis
      by (subst str_nat.simps) (simp add: digit_char_value)
  next
    case False
    have "n mod 10 < 10" by simp
    with False "1.IH" show ?thesis
      by (subst str_nat.simps) (simp add: digit_char_value)
  qed
qed

section \<open>Camera placement\<close>

text \<open>
  Claim C1. For every non-empty point set the builder returns a figure, and the values it
  computes are: \<open>center\<close>, the midpoint of least and greatest coordinate on each axis;
  \<open>max_range\<close>, the largest of the three axis spans; \<open>camera_dist\<close>, that span times 2.5.
  The camera of the figure has its eye at \<open>(camera_dist, camera_dist, camera_dist / 2)\<close>, the
  up vector \<open>(0,0,1)\<close> and looks at the origin \<open>(0,0,0)\<close>, whatever \<open>center\<close> is.
\<close>

theorem camera_placement:
  assumes "points data \<noteq> []"
  shows "\<exists>fr fig. camera_framing (points data) = Inr fr
           \<and> create_gaussian_splatting_visualization data ps ss = Inr fig
           \<and> center fr = (spec_midpoint (fst ` set (points data)),
                          spec_midpoint ((fst \<circ> snd) ` set (points data)),
                          spec_midpoint ((snd \<circ> snd) ` set (points data)))
           \<and> max_range fr = Max {spec_span (fst ` set (points data)),
                                  spec_span ((fst \<circ> snd) ` set (points data)),
                                  spec_span ((snd \<circ> snd) ` set (points data))}
           \<and> camera_dist fr = max_range fr * 2.5
           \<and> camera (scene (fig_layout fig)) =
               \<lparr>camera_up = (0, 0, 1), camera_center = (0, 0, 0),
                camera_eye = (camera_dist fr, camera_dist fr, camera_dist fr / 2)\<rparr>"
proof -
  from create_nonempty [OF assms, of ps ss] obtain fr fig where
    fr: "camera_framing (points data) = Inr fr" and
    fig: "create_gaussian_splatting_visualization data ps ss = Inr fig" and
    cam: "camera (scene (fig_layout fig)) =
               \<lparr>camera_up = (0, 0, 1), camera_center = (0, 0, 0),
                camera_eye = (camera_dist fr, camera_dist fr, camera_dist fr / 2)\<rparr>"
    by blast
  from fr camera_framing_nonempty [OF assms] have
    "fr = \<lparr>center = (spec_midpoint (fst ` set (points data)),
                          spec_midpoint ((fst \<circ> snd) ` set (points data)),
                          spec_midpoint ((snd \<circ> snd) ` set (points data))),
          max_range = Max {spec_span (fst ` set (points data)),
                                  spec_span ((fst \<circ> snd) ` set (points data)),
                                  spec_span ((snd \<circ> snd) ` set (points data))},
          camera_dist = Max {spec_span (fst ` set (points data)),
                                  spec_span ((fst \<circ> snd) ` set (points data)),
                                  spec_span ((snd \<circ> snd) ` set (points data))} * 2.5\<rparr>"
    by simp
  then have "center fr = (spec_midpoint (fst ` set (points data)),
                          spec_midpoint ((fst \<circ> snd) ` set (points data)),
                          spec_midpoint ((snd \<circ> snd) ` set (points data)))"
    and "max_range fr = Max {spec_span (fst ` set (points data)),
                                  spec_span ((fst \<circ> snd) ` set (points data)),
                                  spec_span ((snd \<circ> snd) ` set (points data))}"
    and "camera_dist fr = max_range fr * 2.5"
    by simp_all
  with fr fig cam show ?thesis by blast
qed

text \<open>
  The specification's scenario, obtained from the theorem: for the cube with corners
  \<open>(0,0,0)\<close> and \<open>(10,10,10)\<close> the centre is \<open>(5,5,5)\<close>, the largest span 10, the
  camera distance 25 and the eye \<open>(25, 25, 12.5)\<close>.
\<close>

theorem camera_placement_cube:
  "points cube_data \<noteq> [] \<and>
   (\<exists>fr fig. camera_framing (points cube_data) = Inr fr
      \<and> create_gaussian_splatting_visualization cube_data 5 1 = Inr fig
      \<and> center fr = (5, 5, 5) \<and> max_range fr = 10 \<and> camera_dist fr = 25
      \<and> camera (scene (fig_layout fig)) =
          \<lparr>camera_up = (0, 0, 1), camera_center = (0, 0, 0), camera_eye = (25, 25, 12.5)\<rparr>)"
proof -
  have ne: "points cube_data \<noteq> []"
    by (simp add: cube_data_def cube_points_def)
  have pts: "points cube_data = cube_points"
    by (simp add: cube_data_def)
  from camera_placement [OF ne, of 5 1] obtain fr fig where
    h: "camera_framing (points cube_data) = Inr fr"
       "create_gaussian_splatting_visualization cube_data 5 1 = Inr fig"
       "center fr = (spec_midpoint (fst ` set (points cube_data)),
                          spec_midpoint ((fst \<circ> snd) ` set (points cube_data)),
                          spec_midpoint ((snd \<circ> snd) ` set (points cube_data)))"
       "max_range fr = Max {spec_span (fst ` set (points cube_data)),
                                  spec_span ((fst \<circ> snd) ` set (points cube_data)),
                                  spec_span ((snd \<circ> snd) ` set (points cube_data))}"
       "camera_dist fr = max_range fr * 2.5"
       "camera (scene (fig_layout fig)) =
               \<lparr>camera_up = (0, 0, 1), camera_center = (0, 0, 0),
                camera_eye = (camera_dist fr, camera_dist fr, camera_dist fr / 2)\<rparr>"
    by blast
  have c: "center fr = (5, 5, 5)"
    using h(3) unfolding pts cube_sets by (simp add: spec_midpoint_def)
  have m: "max_range fr = 10"
    using h(4) unfolding pts cube_sets by (simp add: spec_span_def)
  have d: "camera_dist fr = 25"
    using h(5) m by simp
  have e: "camera (scene (fig_layout fig)) =
          \<lparr>camera_up = (0, 0, 1), camera_center = (0, 0, 0), camera_eye = (25, 25, 12.5)\<rparr>"
    using h(6) d by simp
  from ne h(1,2) c m d e show ?thesis by blast
qed

section \<open>The loader's colours\<close>

text \<open>
  Claim C2. When the file is written and the decoder returns a cloud that has no colour
  channel, the loader does not fail: it returns a record whose colours are one entry per
  point, every entry exactly \<open>(0.5, 0.5, 0.5)\<close>.
\<close>

theorem gray_when_no_colors:
  assumes "tmp_name env fs = Inr name"
    and "write_result env file_bytes = None"
    and "read_point_cloud env (fs(name \<mapsto> file_bytes)) name = Inr p"
    and "\<not> pcd_has_colors p"
  shows "\<exists>r fs'. load_ply_file env file_bytes fs = (Inr r, fs')
           \<and> points r = pcd_points p
           \<and> colors r = replicate (length (points r)) (0.5, 0.5, 0.5)
           \<and> length (colors r) = length (points r)
           \<and> (\<forall>i < length (colors r). colors r ! i = (0.5, 0.5, 0.5))"
  using load_decoded [OF assms(1-3)] assms(4)
  by (simp add: extract_record_simps)

text \<open>The theorem at the decoded cloud of one point \<open>(2,3,4)\<close> without colours.\<close>

theorem gray_when_no_colors_single:
  "\<not> pcd_has_colors single_cloud \<and>
   (\<exists>r fs'. load_ply_file (decoding_env single_cloud) ''ply'' Map.empty = (Inr r, fs')
      \<and> points r = [(2, 3, 4)] \<and> colors r = [(0.5, 0.5, 0.5)])"
proof -
  have nc: "\<not> pcd_has_colors single_cloud"
    by (simp add: single_cloud_def)
  from gray_when_no_colors [where fs = Map.empty and file_bytes = "''ply''", OF decoding_env_simps nc] obtain r fs' where
    h: "load_ply_file (decoding_env single_cloud) ''ply'' Map.empty = (Inr r, fs')"
       "points r = pcd_points single_cloud"
       "colors r = replicate (length (points r)) (0.5, 0.5, 0.5)"
    by blast
  have p: "points r = [(2, 3, 4)]"
    using h(2) by (simp add: single_cloud_def)
  have c: "colors r = [(0.5, 0.5, 0.5)]"
    using h(3) p by simp
  from nc h(1) p c show ?thesis by blast
qed




section \<open>Parameters the builder does not read\<close>

text \<open>
  Claim C4. For every record and every point size, the builder's result is the same for any
  two values of \<open>splat_scale\<close>: the parameter is in the signature and has no effect.
\<close>

theorem splat_scale_ignored:
  "create_gaussian_splatting_visualization data ps s1 =
   create_gaussian_splatting_visualization data ps s2"
  by (simp add: create_gaussian_splatting_visualization_def)

section \<open>The temporary file\<close>

text \<open>
  Claim C6 says that the temporary file is deleted on every exit path of the loader, also
  when writing the bytes raises. The write sits before the \<open>try\<close>, in a \<open>with\<close> block over a
  file made with \<open>delete=False\<close>: when it raises, the loader leaves with the error and the
  file is still there. (After a successful write the file is removed on both paths: see
  \<open>load_unlinks_after_write\<close>.)
\<close>

theorem tempfile_left_when_write_raises:
  "fst (load_ply_file full_disk_env ''ply'' Map.empty) = Inl OSError \<and>
   ''/tmp/tmp0.ply'' \<in> dom (snd (load_ply_file full_disk_env ''ply'' Map.empty))"
  by (simp add: load_ply_file_def full_disk_env_def)

section \<open>Degenerate clouds\<close>

text \<open>
  Claim C7. For the empty point cloud the builder fails: the minimum over a column of length
  zero raises \<open>ValueError\<close>, and no figure is returned, whatever the other fields and the
  parameters are.
\<close>

theorem empty_cloud_raises:
  "create_gaussian_splatting_visualization (data\<lparr>points := []\<rparr>) ps ss = Inl ValueError"
  by (simp add: create_gaussian_splatting_visualization_def camera_framing_def axis_range_empty)

section \<open>Colour strings\<close>

text \<open>
  Claim C5. For a record with at least one point the builder returns a figure whose one
  trace has a colour string for every colour of the record. A colour with its three channels
  in \<open>[0,1]\<close> becomes \<open>rgb(R,G,B)\<close>, where each number is \<^verbatim>\<open>int(c*255)\<close>: the integer part of
  the \<^verbatim>\<open>float64\<close> product of the channel and 255. The fractional part of that product is
  dropped, it is not rounded to the nearest integer. The number lies between 0 and 255, and
  it is the integer part of the exact product or that plus one.
\<close>

theorem color_channel_truncated:
  assumes "points data \<noteq> []"
    and "i < length (colors data)"
    and "colors data ! i = (r, g, b)"
    and "\<forall>c \<in> {r, g, b}. 0 \<le> c \<and> c \<le> 1"
  shows "\<exists>fig tr. create_gaussian_splatting_visualization data ps ss = Inr fig
           \<and> fig_data fig = [tr]
           \<and> trace_mode tr = ''markers''
           \<and> length (marker_color (trace_marker tr)) = length (colors data)
           \<and> marker_color (trace_marker tr) ! i =
               ''rgb('' @ str_int (color_channel r) @ '','' @ str_int (color_channel g) @ '',''
                 @ str_int (color_channel b) @ '')''
           \<and> (\<forall>c \<in> {r, g, b}.
                 color_channel c = \<lfloor>float64_mul c 255\<rfloor>
               \<and> of_int (color_channel c) \<le> float64_mul c 255
               \<and> float64_mul c 255 < of_int (color_channel c) + 1
               \<and> 0 \<le> color_channel c \<and> color_channel c \<le> 255
               \<and> \<lfloor>c * 255\<rfloor> \<le> color_channel c \<and> color_channel c \<le> \<lfloor>c * 255\<rfloor> + 1)"
proof -
  from create_nonempty [OF assms(1), of ps ss] obtain fig where
    fig: "create_gaussian_splatting_visualization data ps ss = Inr fig"
    by blast
  let ?tr = "\<lparr>trace_x = map fst (points data), trace_y = map (fst \<circ> snd) (points data),
                 trace_z = map (snd \<circ> snd) (points data), trace_mode = ''markers'',
                 trace_marker =
                   \<lparr>marker_size = ps, marker_color = map rgb_string (colors data),
                    marker_opacity = 0.8, marker_line_width = 0\<rparr>,
                 trace_hoverinfo = ''none''\<rparr>"
  have tr: "fig_data fig = [?tr]"
    by (rule create_Inr_data [OF fig])
  have s: "marker_color (trace_marker ?tr) ! i =
               ''rgb('' @ str_int (color_channel r) @ '','' @ str_int (color_channel g) @ '',''
                 @ str_int (color_channel b) @ '')''"
    using assms(2,3) by (simp add: rgb_string_def)
  have ch: "color_channel c = \<lfloor>float64_mul c 255\<rfloor>
               \<and> of_int (color_channel c) \<le> float64_mul c 255
               \<and> float64_mul c 255 < of_int (color_channel c) + 1
               \<and> 0 \<le> color_channel c \<and> color_channel c \<le> 255
               \<and> \<lfloor>c * 255\<rfloor> \<le> color_channel c \<and> color_channel c \<le> \<lfloor>c * 255\<rfloor> + 1"
    if "c \<in> {r, g, b}" for c
  proof -
    from that assms(4) have c: "0 \<le> c" "c \<le> 1" by auto
    have eq: "color_channel c = \<lfloor>float64_mul c 255\<rfloor>"
      by (rule color_channel_unit(1) [OF c])
    have "of_int (color_channel c) \<le> float64_mul c 255"
      and "float64_mul c 255 < of_int (color_channel c) + 1"
      unfolding eq by linarith+
    with eq color_channel_unit(2-5) [OF c] show ?thesis by blast
  qed
  have "trace_mode ?tr = ''markers''"
    and "length (marker_color (trace_marker ?tr)) = length (colors data)"
    by simp_all
  with fig tr s ch show ?thesis by blast
qed

text \<open>
  The theorem at the colour \<^verbatim>\<open>(0.999, 1.0, 0.0)\<close>: 0.999 gives 254 (rounding to the nearest
  integer would give 255) and 1.0 gives 255.
\<close>

theorem color_channel_truncated_example:
  "points one_point_data \<noteq> []
   \<and> colors one_point_data ! 0 = (8998192055486251 / 9007199254740992, 1, 0)
   \<and> (\<exists>fig tr. create_gaussian_splatting_visualization one_point_data 5 1 = Inr fig
         \<and> fig_data fig = [tr]
         \<and> trace_mode tr = ''markers''
         \<and> marker_color (trace_marker tr) ! 0 = ''rgb(254,255,0)'')
   \<and> color_channel (8998192055486251 / 9007199254740992) = 254
   \<and> color_channel 1 = 255"
proof -
  have ne: "points one_point_data \<noteq> []"
    and i: "0 < length (colors one_point_data)"
    and c: "colors one_point_data ! 0 = (8998192055486251 / 9007199254740992, 1, 0)"
    by (simp_all add: one_point_data_def)
  have u: "\<forall>c \<in> {8998192055486251 / 9007199254740992, 1, 0 :: real}. 0 \<le> c \<and> c \<le> 1"
    by simp
  from color_channel_truncated [OF ne i c u, of 5 1] obtain fig tr where
    fig: "create_gaussian_splatting_visualization one_point_data 5 1 = Inr fig"
    and tr: "fig_data fig = [tr]" "trace_mode tr = ''markers''"
    and s: "marker_color (trace_marker tr) ! 0 =
               ''rgb('' @ str_int (color_channel (8998192055486251 / 9007199254740992)) @ '',''
                 @ str_int (color_channel 1) @ '','' @ str_int (color_channel 0) @ '')''"
    by blast
  from s have "marker_color (trace_marker tr) ! 0 = ''rgb(254,255,0)''"
    by (simp add: color_channel_0 color_channel_1 color_channel_0999 str_int_examples)
  with ne c fig tr color_channel_0999 color_channel_1 show ?thesis by blast
qed

text \<open>
  Claim C8. For a cloud of one point the builder raises no error: the three spans are 0,
  so \<open>max_range\<close> and \<open>camera_dist\<close> are 0 and the eye of the camera is \<open>(0,0,0)\<close>. In the
  specification's scenario, the loader turns a decoded cloud of the single point \<open>(2,3,4)\<close>
  without colours into a record with the colours \<open>[(0.5,0.5,0.5)]\<close>, and the builder on that
  record has \<open>max_range = 0\<close> and \<open>camera_dist = 0\<close>.
\<close>

theorem single_point_no_error:
  "(\<exists>fr fig. camera_framing [p] = Inr fr \<and> max_range fr = 0 \<and> camera_dist fr = 0
       \<and> create_gaussian_splatting_visualization (data\<lparr>points := [p]\<rparr>) ps ss = Inr fig
       \<and> camera_eye (camera (scene (fig_layout fig))) = (0, 0, 0))
   \<and> (\<exists>r fs' fr fig.
         load_ply_file (decoding_env single_cloud) file_bytes fs = (Inr r, fs')
       \<and> points r = [(2, 3, 4)] \<and> colors r = [(0.5, 0.5, 0.5)]
       \<and> camera_framing (points r) = Inr fr \<and> max_range fr = 0 \<and> camera_dist fr = 0
       \<and> create_gaussian_splatting_visualization r ps ss = Inr fig
       \<and> camera_eye (camera (scene (fig_layout fig))) = (0, 0, 0))"
proof
  have ne: "points (data\<lparr>points := [p]\<rparr>) \<noteq> []" by simp
  from create_nonempty [OF ne, of ps ss] obtain fr fig where
    "camera_framing (points (data\<lparr>points := [p]\<rparr>)) = Inr fr"
    "create_gaussian_splatting_visualization (data\<lparr>points := [p]\<rparr>) ps ss = Inr fig"
    "camera (scene (fig_layout fig)) =
               \<lparr>camera_up = (0, 0, 1), camera_center = (0, 0, 0),
                camera_eye = (camera_dist fr, camera_dist fr, camera_dist fr / 2)\<rparr>"
    by blast
  then show "\<exists>fr fig. camera_framing [p] = Inr fr \<and> max_range fr = 0 \<and> camera_dist fr = 0
       \<and> create_gaussian_splatting_visualization (data\<lparr>points := [p]\<rparr>) ps ss = Inr fig
       \<and> camera_eye (camera (scene (fig_layout fig))) = (0, 0, 0)"
    by (auto simp: camera_framing_single)
next
  let ?r = "extract_record single_cloud"
  have l: "load_ply_file (decoding_env single_cloud) file_bytes fs =
      (Inr ?r, fs(''/tmp/tmp0.ply'' := None))"
    by (rule load_decoded [OF decoding_env_simps])
  have p: "points ?r = [(2, 3, 4)]" and c: "colors ?r = [(0.5, 0.5, 0.5)]"
    by (simp_all add: extract_record_simps single_cloud_def)
  have ne: "points ?r \<noteq> []" using p by simp
  from create_nonempty [OF ne, of ps ss] obtain fr fig where
    h: "camera_framing (points ?r) = Inr fr"
    "create_gaussian_splatting_visualization ?r ps ss = Inr fig"
    "camera (scene (fig_layout fig)) =
               \<lparr>camera_up = (0, 0, 1), camera_center = (0, 0, 0),
                camera_eye = (camera_dist fr, camera_dist fr, camera_dist fr / 2)\<rparr>"
    by blast
  from h(1) have fr: "max_range fr = 0" "camera_dist fr = 0"
    by (auto simp: p camera_framing_single)
  with h(3) have "camera_eye (camera (scene (fig_layout fig))) = (0, 0, 0)"
    by simp
  with l p c h(1,2) fr show "\<exists>r fs' fr fig.
         load_ply_file (decoding_env single_cloud) file_bytes fs = (Inr r, fs')
       \<and> points r = [(2, 3, 4)] \<and> colors r = [(0.5, 0.5, 0.5)]
       \<and> camera_framing (points r) = Inr fr \<and> max_range fr = 0 \<and> camera_dist fr = 0
       \<and> create_gaussian_splatting_visualization r ps ss = Inr fig
       \<and> camera_eye (camera (scene (fig_layout fig))) = (0, 0, 0)"
    by blast
qed

section \<open>Marker opacity\<close>

text \<open>
  Claim C9 says that the markers are fully opaque (opacity 1). The builder writes
  \<open>opacity=0.8\<close> into the marker: for the cube the figure has one trace and its marker
  opacity is not 1.
\<close>

theorem markers_not_opaque_cube:
  "\<not> isl (create_gaussian_splatting_visualization cube_data 5 1) \<and>
   length (fig_data (projr (create_gaussian_splatting_visualization cube_data 5 1))) = 1 \<and>
   marker_opacity (trace_marker (hd (fig_data (projr
     (create_gaussian_splatting_visualization cube_data 5 1))))) \<noteq> 1"
proof -
  have "points cube_data \<noteq> []"
    by (simp add: cube_data_def cube_points_def)
  from create_nonempty [OF this, of 5 1] show ?thesis
    by auto
qed

text \<open>
  Claim C9 as amended: for every record with at least one point (for no point the builder
  fails) the builder returns a figure with exactly one trace, in mode \<open>markers\<close>: one marker
  per point at the point's coordinates, coloured by the colour strings of the record, of
  size \<open>point_size\<close>, with opacity 0.8 and an outline of width 0.
\<close>

theorem markers_colored_opacity_08:
  assumes "points data \<noteq> []"
  shows "\<exists>fig. create_gaussian_splatting_visualization data ps ss = Inr fig
           \<and> fig_data fig =
               [\<lparr>trace_x = map fst (points data), trace_y = map (fst \<circ> snd) (points data),
                 trace_z = map (snd \<circ> snd) (points data), trace_mode = ''markers'',
                 trace_marker =
                   \<lparr>marker_size = ps, marker_color = map rgb_string (colors data),
                    marker_opacity = 0.8, marker_line_width = 0\<rparr>,
                 trace_hoverinfo = ''none''\<rparr>]"
  using create_nonempty [OF assms, of ps ss] by blast

text \<open>The amended claim at the cube: eight markers, their colours, opacity 0.8.\<close>

theorem markers_colored_opacity_08_cube:
  "points cube_data \<noteq> [] \<and>
   (\<exists>fig. create_gaussian_splatting_visualization cube_data 5 1 = Inr fig
      \<and> fig_data fig =
          [\<lparr>trace_x = [0, 10, 0, 10, 0, 10, 0, 10], trace_y = [0, 0, 10, 10, 0, 0, 10, 10],
            trace_z = [0, 0, 0, 0, 10, 10, 10, 10], trace_mode = ''markers'',
            trace_marker =
              \<lparr>marker_size = 5,
               marker_color =
                 [''rgb(0,0,0)'', ''rgb(255,0,0)'', ''rgb(0,255,0)'', ''rgb(255,255,0)'',
                  ''rgb(0,0,255)'', ''rgb(255,0,255)'', ''rgb(0,255,255)'',
                  ''rgb(255,255,255)''],
               marker_opacity = 0.8, marker_line_width = 0\<rparr>,
            trace_hoverinfo = ''none''\<rparr>])"
proof -
  have ne: "points cube_data \<noteq> []"
    by (simp add: cube_data_def cube_points_def)
  have p: "map fst (points cube_data) = [0, 10, 0, 10, 0, 10, 0, 10]"
    "map (fst \<circ> snd) (points cube_data) = [0, 0, 10, 10, 0, 0, 10, 10]"
    "map (snd \<circ> snd) (points cube_data) = [0, 0, 0, 0, 10, 10, 10, 10]"
    by (simp_all add: cube_data_def cube_points_def)
  from markers_colored_opacity_08 [OF ne, of 5 1] obtain fig where
    "create_gaussian_splatting_visualization cube_data 5 1 = Inr fig"
    "fig_data fig =
               [\<lparr>trace_x = map fst (points cube_data),
                 trace_y = map (fst \<circ> snd) (points cube_data),
                 trace_z = map (snd \<circ> snd) (points cube_data), trace_mode = ''markers'',
                 trace_marker =
                   \<lparr>marker_size = 5, marker_color = map rgb_string (colors cube_data),
                    marker_opacity = 0.8, marker_line_width = 0\<rparr>,
                 trace_hoverinfo = ''none''\<rparr>]"
    by blast
  then show ?thesis
    unfolding p cube_colors using ne by blast
qed

section \<open>Fields the builder does not read\<close>

text \<open>
  Claim C10. The figure depends only on the \<open>points\<close> and \<open>colors\<close> of the record: two
  records that agree on these two fields, whatever their normals and their handles (which may
  even be of different types), give the same result for the same parameters.
\<close>

theorem depends_on_points_and_colors:
  fixes d1 :: "'a PointCloudRecord" and d2 :: "'b PointCloudRecord"
  assumes "points d1 = points d2" and "colors d1 = colors d2"
  shows "create_gaussian_splatting_visualization d1 ps ss =
         create_gaussian_splatting_visualization d2 ps ss"
  using assms by (simp add: create_gaussian_splatting_visualization_def)

text \<open>The theorem at the cube without normals and the cube with normals and a decoded handle.\<close>

theorem depends_on_points_and_colors_cube:
  "normals cube_data \<noteq> normals cube_data_with_normals \<and>
   points cube_data = points cube_data_with_normals \<and>
   colors cube_data = colors cube_data_with_normals \<and>
   create_gaussian_splatting_visualization cube_data 5 1 =
   create_gaussian_splatting_visualization cube_data_with_normals 5 1"
proof -
  have p: "points cube_data = points cube_data_with_normals"
    and c: "colors cube_data = colors cube_data_with_normals"
    and n: "normals cube_data \<noteq> normals cube_data_with_normals"
    by (simp_all add: cube_data_def cube_data_with_normals_def)
  from depends_on_points_and_colors [OF p c, of 5 1] p c n show ?thesis by blast
qed

end
